theory Spec2Isabelle
  imports Complex_Main
begin

section \<open>Conway Deploy: the token-launcher skill\<close>

text \<open>
  A shallow embedding of the tool handlers and heartbeat tasks that
  \<^verbatim>\<open>register\<close> installs (\<^verbatim>\<open>src/skills/token-launcher/index.ts\<close>) and of the
  classes they call: \<^verbatim>\<open>WalletManager\<close>, \<^verbatim>\<open>FeeHarvester\<close>, \<^verbatim>\<open>PortfolioMonitor\<close> and
  \<^verbatim>\<open>SurvivalMapper\<close>.

  Conventions of the embedding.
  \<^item> A JavaScript \<^verbatim>\<open>number\<close> that holds an amount is the \<^typ>\<open>real\<close> value of an IEEE 754
    double. Every \<^verbatim>\<open>+\<close>, \<^verbatim>\<open>-\<close>, \<^verbatim>\<open>*\<close> and \<^verbatim>\<open>/\<close> of the source on amounts is the exact
    operation followed by the rounding \<open>fl\<close> to the nearest double (\<open>js_add\<close>, \<open>js_sub\<close>,
    \<open>js_mul\<close>, \<open>js_div\<close>), and a decimal literal that is no double, such as \<^verbatim>\<open>0.05\<close>, is
    \<open>fl 0.05\<close>. Infinity and NaN are not represented: amounts stay far below \<open>2 ^ 1024\<close>
    and no divisor of the source is zero. Counts and millisecond timestamps are
    \<^typ>\<open>int\<close>; their differences are exact in the source as well.
  \<^item> A key of the host's state bag (\<^verbatim>\<open>ctx.getState()\<close>) that may be absent is an
    \<^typ>\<open>'a option\<close>; the source's \<^verbatim>\<open>x || d\<close> is written out by \<open>or_num\<close>, \<open>or_int\<close>
    and \<open>or_list\<close>.
  \<^item> An awaited call that rejects is the left injection of a sum, carrying
    \<^verbatim>\<open>err.message\<close>; a handler whose promise rejects returns \<open>Inl\<close> itself.
  \<^item> Everything outside the process (RPC node, deployers, pool manager, bridge, clock)
    is a field of the record \<open>world\<close>; a theorem quantified over the world holds for
    every behaviour of these collaborators.
  \<^item> A template literal is a list of fragments, so that a message keeps the numbers it
    interpolates. \<^verbatim>\<open>ctx.log\<close> and \<^verbatim>\<open>console.log\<close> only print and are left out.
\<close>

subsection \<open>Messages\<close>

datatype frag = Txt string | Num real

type_synonym message = "frag list"

subsection \<open>JavaScript numbers\<close>

text \<open>
  Rounding to the nearest double, ties to even. A positive magnitude is scaled by powers
  of two into \<open>[2 ^ 52, 2 ^ 53)\<close>, where the doubles are the integers; the exponent does
  not go below -1074, which gives the subnormal numbers their fixed spacing.
\<close>

function scale_up :: "real \<Rightarrow> int \<Rightarrow> real \<times> int" where
  "scale_up q e =
     (if 0 < q \<and> q < 2 ^ 52 \<and> - 1074 < e then scale_up (2 * q) (e - 1) else (q, e))"
  by pat_completeness auto
termination
  by (relation "measure (\<lambda>(q, e). nat (e + 1074))") auto

function scale_down :: "real \<Rightarrow> int \<Rightarrow> real \<times> int" where
  "scale_down q e = (if 2 ^ 53 \<le> q then scale_down (q / 2) (e + 1) else (q, e))"
  by pat_completeness auto
termination
proof (relation "measure (\<lambda>(q, e). nat \<lfloor>q\<rfloor>)")
  show "wf (measure (\<lambda>(q :: real, e :: int). nat \<lfloor>q\<rfloor>))"
    by simp
next
  fix q :: real and e :: int
  assume big: "2 ^ 53 \<le> q"
  then have "q / 2 \<le> q - 1" by simp
  then have "\<lfloor>q / 2\<rfloor> \<le> \<lfloor>q - 1\<rfloor>" by (rule floor_mono)
  moreover from big have "0 < \<lfloor>q\<rfloor>" by simp
  ultimately show "((q / 2, e + 1), (q, e)) \<in> measure (\<lambda>(q, e). nat \<lfloor>q\<rfloor>)"
    by simp
qed

declare scale_up.simps [simp del]

declare scale_down.simps [simp del]

definition round_even :: "real \<Rightarrow> int" where
  "round_even q =
     (let m = \<lfloor>q\<rfloor>; r = q - real_of_int m
      in if r < 1 / 2 then m
         else if 1 / 2 < r then m + 1
         else if even m then m else m + 1)"

definition fl :: "real \<Rightarrow> real" where
  "fl x =
     (case scale_up \<bar>x\<bar> 0 of
        (q0, e0) \<Rightarrow>
          (case scale_down q0 e0 of
             (q, e) \<Rightarrow> sgn x * real_of_int (round_even q) * 2 powi e))"

definition js_add :: "real \<Rightarrow> real \<Rightarrow> real" where
  "js_add x y = fl (x + y)"

definition js_sub :: "real \<Rightarrow> real \<Rightarrow> real" where
  "js_sub x y = fl (x - y)"

definition js_mul :: "real \<Rightarrow> real \<Rightarrow> real" where
  "js_mul x y = fl (x * y)"

definition js_div :: "real \<Rightarrow> real \<Rightarrow> real" where
  "js_div x y = fl (x / y)"

text \<open>\<^verbatim>\<open>Math.round\<close> rounds half up, and is exact.\<close>

definition js_round :: "real \<Rightarrow> int" where
  "js_round x = \<lfloor>x + 1 / 2\<rfloor>"

subsection \<open>The data of index.ts\<close>

datatype deploy_method = pumpfun | raydium | spl_direct

datatype token_status = active | dead | graduated

record DeployedToken =
  mint :: string
  name :: string
  symbol :: string
  token_method :: deploy_method
  deployedAt :: int
  lpAddress :: "string option"
  initialSupply :: real
  retainedSupply :: real
  totalFeesEarned :: real
  status :: token_status

text \<open>The fields of \<^verbatim>\<open>TokenLauncherConfig\<close> that the handlers read.\<close>

record TokenLauncherConfig =
  creatorAddress :: string
  creatorFeeSplit :: int
  pumpfunEnabled :: bool
  raydiumEnabled :: bool
  survivalReserveSol :: real
  maxConcurrentTokens :: int
  deployCooldownMs :: int

text \<open>The keys of the host's state bag that the handlers read and write.\<close>

record skill_state =
  deployedTokens :: "DeployedToken list option"
  lastDeployTimestamp :: "int option"
  totalInvested :: "real option"
  totalEarned :: "real option"

text \<open>What a tool hands back: \<^verbatim>\<open>{ error: msg }\<close> or a success payload.\<close>

datatype 'a tool_result = Error message | Success 'a

subsection \<open>JavaScript's \<^verbatim>\<open>||\<close> on optional values\<close>

definition or_num :: "real option \<Rightarrow> real \<Rightarrow> real" where
  "or_num x d = (case x of None \<Rightarrow> d | Some v \<Rightarrow> if v = 0 then d else v)"

definition or_int :: "int option \<Rightarrow> int \<Rightarrow> int" where
  "or_int x d = (case x of None \<Rightarrow> d | Some v \<Rightarrow> if v = 0 then d else v)"

text \<open>An array is truthy even when it is empty.\<close>

definition or_list :: "'a list option \<Rightarrow> 'a list \<Rightarrow> 'a list" where
  "or_list x d = (case x of None \<Rightarrow> d | Some v \<Rightarrow> v)"

text \<open>\<^verbatim>\<open>if (s)\<close> on an optional string: \<^verbatim>\<open>undefined\<close> and \<^verbatim>\<open>""\<close> are falsy.\<close>

definition truthy_str :: "string option \<Rightarrow> bool" where
  "truthy_str x = (case x of None \<Rightarrow> False | Some v \<Rightarrow> v \<noteq> [])"

definition truthy_num :: "real option \<Rightarrow> bool" where
  "truthy_num x = (case x of None \<Rightarrow> False | Some v \<Rightarrow> v \<noteq> 0)"

subsection \<open>Parameters and results of the collaborators\<close>

record deploy_params =
  p_name :: string
  p_symbol :: string
  p_description :: string
  p_imagePrompt :: "string option"
  p_initialBuySol :: "real option"
  p_lpSol :: "real option"
  p_method :: "deploy_method option"

record utility_params =
  u_name :: string
  u_symbol :: string
  u_description :: string
  u_supply :: "real option"
  u_decimals :: "real option"
  u_freezeAuthority :: "bool option"
  u_lpSol :: "real option"

record DeployResult =
  r_mint :: string
  r_supply :: real
  r_retainedAmount :: real
  r_lpAddress :: "string option"
  r_txSignature :: string

record PoolCreateResult =
  poolAddress :: string
  lpMint :: string
  pool_txSignature :: string

record FeeResult =
  solFees :: real
  tokenFees :: real
  fee_txSignature :: string

record SwapResult =
  inputAmount :: real
  outputAmount :: real
  swap_txSignature :: string

subsection \<open>The world outside the process\<close>

text \<open>
  One record holds the reply of every external call of one handler run. \<open>clock w k\<close> is
  what the \<open>k\<close>-th evaluation of \<^verbatim>\<open>Date.now()\<close> in the run returns. The calls made inside
  a loop over positions take the position's index in the loop as their first argument,
  so that two positions may be answered differently even when their arguments agree.
\<close>

record world =
  clock :: "nat \<Rightarrow> int"
  getBalance :: "message + int"
  getUsdcAccount :: "message + int"
  deployViaPumpFun :: "deploy_params \<Rightarrow> message + DeployResult"
  deployDirect :: "deploy_params \<Rightarrow> message + DeployResult"
  utilityDeploy :: "utility_params \<Rightarrow> message + DeployResult"
  createPool :: "string \<Rightarrow> real \<Rightarrow> message + PoolCreateResult"
  collectFees :: "nat \<Rightarrow> string \<Rightarrow> message + FeeResult"
  checkPumpFunCreatorFees :: "nat \<Rightarrow> string \<Rightarrow> real"
  sendSol :: "string \<Rightarrow> real \<Rightarrow> message + string"
  swapSolToUsdc :: "real \<Rightarrow> message + SwapResult"
  onChainHolders :: "nat \<Rightarrow> string \<Rightarrow> message + nat"
  dexScreenerPrice :: "nat \<Rightarrow> string \<Rightarrow> message + real option"
  bridgeUsdcToBase :: "real \<Rightarrow> message + unit"
  topUpConwayCredits :: "real \<Rightarrow> message + unit"

subsection \<open>WalletManager.getTreasuryState (treasury/wallet.ts)\<close>

record treasury =
  solBalance :: real
  usdcBalance :: real
  conwayCredits :: real

definition LAMPORTS_PER_SOL :: real where
  "LAMPORTS_PER_SOL = 1000000000"

text \<open>
  \<^verbatim>\<open>connection.getBalance\<close> is awaited outside any \<^verbatim>\<open>try\<close>, so its rejection is the
  rejection of the method; the USDC lookup is inside a \<^verbatim>\<open>try\<close> whose \<^verbatim>\<open>catch\<close> is empty.
  The lamports arrive as a \<^verbatim>\<open>number\<close> and the token amount goes through \<^verbatim>\<open>Number\<close>: both are
  rounded to a double before the division.
\<close>

definition getTreasuryState :: "world \<Rightarrow> message + treasury" where
  "getTreasuryState w =
     (case getBalance w of
        Inl err \<Rightarrow> Inl err
      | Inr lamports \<Rightarrow>
          Inr \<lparr> solBalance = js_div (fl (real_of_int lamports)) LAMPORTS_PER_SOL,
                usdcBalance = (case getUsdcAccount w of
                                 Inl _ \<Rightarrow> 0
                               | Inr amount \<Rightarrow> js_div (fl (real_of_int amount)) 1000000),
                conwayCredits = 0 \<rparr>)"

subsection \<open>The tool deploy\_memecoin\<close>

text \<open>The three pre-flight checks reject with these reasons.\<close>

datatype rejection =
    MaxConcurrent int
  | InsufficientSol real real
  | CooldownActive int

fun reason :: "rejection \<Rightarrow> message" where
  "reason (MaxConcurrent n) =
     [Txt ''Max concurrent tokens ('', Num (real_of_int n),
      Txt '') reached. Harvest or retire tokens first.'']"
| "reason (InsufficientSol cost available) =
     [Txt ''Insufficient SOL. Need '', Num cost, Txt '' but only '', Num available,
      Txt '' available after survival reserve.'']"
| "reason (CooldownActive waitMin) =
     [Txt ''Cooldown active. Wait '', Num (real_of_int waitMin), Txt '' more minutes.'']"

definition activeTokens :: "skill_state \<Rightarrow> DeployedToken list" where
  "activeTokens s = filter (\<lambda>t. status t = active) (or_list (deployedTokens s) [])"

definition totalCost :: "deploy_params \<Rightarrow> real" where
  "totalCost params =
     js_add (js_add (or_num (p_initialBuySol params) 0.5) (or_num (p_lpSol params) 1.0)) (fl 0.05)"

text \<open>
  Lines 113 to 126: the first check that fails decides, \<open>None\<close> when all three pass.
  The cooldown test reads the clock once and the computation of the wait once more.
\<close>

definition preflight ::
  "TokenLauncherConfig \<Rightarrow> world \<Rightarrow> treasury \<Rightarrow> deploy_params \<Rightarrow> skill_state \<Rightarrow> rejection option"
where
  "preflight config w tr params s =
     (if int (length (activeTokens s)) \<ge> maxConcurrentTokens config
      then Some (MaxConcurrent (maxConcurrentTokens config))
      else if js_sub (solBalance tr) (totalCost params) < survivalReserveSol config
      then Some (InsufficientSol (totalCost params)
                   (js_sub (solBalance tr) (survivalReserveSol config)))
      else
        let lastDeploy = or_int (lastDeployTimestamp s) 0 in
        if clock w 0 - lastDeploy < deployCooldownMs config
        then Some (CooldownActive
               \<lceil>js_div (real_of_int (deployCooldownMs config - (clock w 1 - lastDeploy))) 60000\<rceil>)
        else None)"

text \<open>
  \<^verbatim>\<open>if (config.raydiumEnabled && params.lpSol) { ... result.lpAddress = lpResult.poolAddress }\<close>,
  the same statement in both deployment tools (lines 136 to 139 and 182 to 185).
\<close>

definition attach_pool ::
  "TokenLauncherConfig \<Rightarrow> world \<Rightarrow> real option \<Rightarrow> DeployResult \<Rightarrow> message + DeployResult"
where
  "attach_pool config w lp result =
     (if raydiumEnabled config \<and> truthy_num lp
      then (case createPool w (r_mint result) (the lp) of
              Inl err \<Rightarrow> Inl err
            | Inr lpResult \<Rightarrow> Inr (result\<lparr>r_lpAddress := Some (poolAddress lpResult)\<rparr>))
      else Inr result)"

text \<open>The body of the \<^verbatim>\<open>try\<close>, up to the deployment result (lines 131 to 140).\<close>

definition run_deploy ::
  "TokenLauncherConfig \<Rightarrow> world \<Rightarrow> deploy_params \<Rightarrow> deploy_method \<Rightarrow> message + DeployResult"
where
  "run_deploy config w params m =
     (if m = pumpfun \<and> pumpfunEnabled config then deployViaPumpFun w params
      else
        case deployDirect w params of
          Inl err \<Rightarrow> Inl err
        | Inr result \<Rightarrow> attach_pool config w (p_lpSol params) result)"

definition new_token ::
  "string \<Rightarrow> string \<Rightarrow> deploy_method \<Rightarrow> int \<Rightarrow> DeployResult \<Rightarrow> DeployedToken"
where
  "new_token nm sy m now result =
     \<lparr> mint = r_mint result, name = nm, symbol = sy, token_method = m, deployedAt = now,
       lpAddress = r_lpAddress result, initialSupply = r_supply result,
       retainedSupply = r_retainedAmount result, totalFeesEarned = 0, status = active \<rparr>"

text \<open>
  The handler. On the success path the clock is read at line 123 (reading 0), for
  \<^verbatim>\<open>deployedAt\<close> (reading 1) and for \<^verbatim>\<open>lastDeployTimestamp\<close> (reading 2).
\<close>

definition deploy_memecoin ::
  "TokenLauncherConfig \<Rightarrow> world \<Rightarrow> deploy_params \<Rightarrow> skill_state
     \<Rightarrow> (message + DeployResult tool_result) \<times> skill_state"
where
  "deploy_memecoin config w params s =
     (case getTreasuryState w of
        Inl err \<Rightarrow> (Inl err, s)
      | Inr tr \<Rightarrow>
          (case preflight config w tr params s of
             Some r \<Rightarrow> (Inr (Error (reason r)), s)
           | None \<Rightarrow>
               let m = (case p_method params of None \<Rightarrow> pumpfun | Some m' \<Rightarrow> m') in
               (case run_deploy config w params m of
                  Inl err \<Rightarrow> (Inr (Error err), s)
                | Inr result \<Rightarrow>
                    let token = new_token (p_name params) (p_symbol params) m (clock w 1) result;
                        tokens = or_list (deployedTokens s) [] @ [token]
                    in (Inr (Success result),
                        s\<lparr> deployedTokens := Some tokens,
                           lastDeployTimestamp := Some (clock w 2),
                           totalInvested :=
                             Some (js_add (or_num (totalInvested s) 0) (totalCost params)) \<rparr>))))"

subsection \<open>The tool deploy\_utility\_token\<close>

text \<open>
  Lines 170 to 208. The whole body is one \<^verbatim>\<open>try\<close>; it reads neither the treasury nor
  \<^verbatim>\<open>lastDeployTimestamp\<close>, and the only key it writes is \<^verbatim>\<open>deployedTokens\<close>.
\<close>

definition deploy_utility_token ::
  "TokenLauncherConfig \<Rightarrow> world \<Rightarrow> utility_params \<Rightarrow> skill_state
     \<Rightarrow> (message + DeployResult tool_result) \<times> skill_state"
where
  "deploy_utility_token config w params s =
     (case utilityDeploy w params of
        Inl err \<Rightarrow> (Inr (Error err), s)
      | Inr result0 \<Rightarrow>
          (case attach_pool config w (u_lpSol params) result0 of
             Inl err \<Rightarrow> (Inr (Error err), s)
           | Inr result \<Rightarrow>
               let token = new_token (u_name params) (u_symbol params) spl_direct (clock w 0) result;
                   tokens = or_list (deployedTokens s) [] @ [token]
               in (Inr (Success result), s\<lparr> deployedTokens := Some tokens \<rparr>)))"

subsection \<open>FeeHarvester.harvest (liquidity/fees.ts)\<close>

record breakdown_entry =
  tokenMint :: string
  b_symbol :: string
  lpFees :: real
  creatorFees :: real

record HarvestResult =
  totalHarvested :: real
  breakdown :: "breakdown_entry list"
  txSignatures :: "string list"

text \<open>
  The liquidity-fee query of one position: \<open>None\<close> when the position has no pool or when
  \<^verbatim>\<open>collectFees\<close> rejects (the \<^verbatim>\<open>catch\<close> only prints), the fee result otherwise.
\<close>

definition lp_query :: "world \<Rightarrow> nat \<Rightarrow> DeployedToken \<Rightarrow> FeeResult option" where
  "lp_query w k token =
     (if truthy_str (lpAddress token)
      then (case collectFees w k (the (lpAddress token)) of
              Inl _ \<Rightarrow> None
            | Inr feeResult \<Rightarrow> Some feeResult)
      else None)"

text \<open>
  \<^verbatim>\<open>checkPumpFunCreatorFees\<close> scans recent wallet transactions inside a \<^verbatim>\<open>try\<close> whose
  \<^verbatim>\<open>catch\<close> returns 0, so it always returns a number: the world supplies that number.
\<close>

definition creator_query :: "world \<Rightarrow> nat \<Rightarrow> DeployedToken \<Rightarrow> real" where
  "creator_query w k token =
     (if token_method token = pumpfun then checkPumpFunCreatorFees w k (mint token) else 0)"

text \<open>
  One turn of the \<^verbatim>\<open>for\<close> loop of lines 373 to 405: the entry it pushes onto the
  breakdown, the signatures it pushes, and its effect on the three accumulators.
\<close>

definition harvest_entry :: "world \<Rightarrow> nat \<Rightarrow> DeployedToken \<Rightarrow> breakdown_entry" where
  "harvest_entry w k token =
     (let lp = (case lp_query w k token of None \<Rightarrow> 0 | Some feeResult \<Rightarrow> solFees feeResult);
          cf = creator_query w k token
      in \<lparr> tokenMint = mint token, b_symbol = symbol token, lpFees = lp, creatorFees = cf \<rparr>)"

definition harvest_sigs :: "world \<Rightarrow> nat \<Rightarrow> DeployedToken \<Rightarrow> string list" where
  "harvest_sigs w k token =
     (case lp_query w k token of
        None \<Rightarrow> []
      | Some feeResult \<Rightarrow>
          if fee_txSignature feeResult \<noteq> ''PLACEHOLDER_TX''
          then [fee_txSignature feeResult] else [])"

definition harvest_step :: "world \<Rightarrow> nat \<Rightarrow> DeployedToken \<Rightarrow> HarvestResult \<Rightarrow> HarvestResult" where
  "harvest_step w k token acc =
     (let entry = harvest_entry w k token;
          tokenTotal = js_add (lpFees entry) (creatorFees entry)
      in \<lparr> totalHarvested = js_add (totalHarvested acc) tokenTotal,
           breakdown = breakdown acc @ [entry],
           txSignatures = txSignatures acc @ harvest_sigs w k token \<rparr>)"

fun harvest_loop :: "world \<Rightarrow> nat \<Rightarrow> DeployedToken list \<Rightarrow> HarvestResult \<Rightarrow> HarvestResult" where
  "harvest_loop w k [] acc = acc"
| "harvest_loop w k (token # rest) acc = harvest_loop w (Suc k) rest (harvest_step w k token acc)"

text \<open>The positions in scope: the local \<^verbatim>\<open>activeTokens\<close> of \<^verbatim>\<open>harvest\<close>.\<close>

definition harvest_scope :: "string \<Rightarrow> DeployedToken list \<Rightarrow> DeployedToken list" where
  "harvest_scope target tokens =
     (if target = ''all''
      then filter (\<lambda>t. status t = active) tokens
      else filter (\<lambda>t. mint t = target \<and> status t = active) tokens)"

definition harvest :: "world \<Rightarrow> string \<Rightarrow> DeployedToken list \<Rightarrow> HarvestResult" where
  "harvest w target tokens =
     harvest_loop w 0 (harvest_scope target tokens)
       \<lparr> totalHarvested = 0, breakdown = [], txSignatures = [] \<rparr>"

subsection \<open>The tool harvest\_fees\<close>

text \<open>
  Lines 210 to 232. \<^verbatim>\<open>totalEarned\<close> is written before the creator's share is sent; when
  \<^verbatim>\<open>sendSol\<close> rejects, the \<^verbatim>\<open>catch\<close> returns the error and the write stays.
\<close>

definition harvest_fees ::
  "TokenLauncherConfig \<Rightarrow> world \<Rightarrow> string option \<Rightarrow> skill_state
     \<Rightarrow> (message + HarvestResult tool_result) \<times> skill_state"
where
  "harvest_fees config w tokenMint_param s =
     (let result = harvest w (if truthy_str tokenMint_param then the tokenMint_param else ''all'')
                     (or_list (deployedTokens s) []);
          harvested = totalHarvested result;
          s' = s\<lparr> totalEarned := Some (js_add (or_num (totalEarned s) 0) harvested) \<rparr>
      in if harvested > 0 \<and> creatorFeeSplit config > 0
         then (let creatorShare =
                     js_mul harvested (js_div (real_of_int (creatorFeeSplit config)) 100)
               in case sendSol w (creatorAddress config) creatorShare of
                    Inl err \<Rightarrow> (Inr (Error err), s')
                  | Inr _ \<Rightarrow> (Inr (Success result), s'))
         else (Inr (Success result), s'))"

subsection \<open>The tools check\_treasury and swap\_to\_usdc\<close>

record treasury_report =
  rep_solBalance :: real
  rep_usdcBalance :: real
  rep_conwayCredits :: real
  rep_totalInvested :: real
  rep_totalEarned :: real
  rep_netPnl :: real
  rep_deployedTokenCount :: nat
  rep_activeTokens :: nat

text \<open>Lines 238 to 249: no \<^verbatim>\<open>try\<close> around the awaited \<^verbatim>\<open>getTreasuryState\<close>.\<close>

definition check_treasury :: "world \<Rightarrow> skill_state \<Rightarrow> message + treasury_report tool_result" where
  "check_treasury w s =
     (case getTreasuryState w of
        Inl err \<Rightarrow> Inl err
      | Inr tr \<Rightarrow>
          Inr (Success
            \<lparr> rep_solBalance = solBalance tr,
              rep_usdcBalance = usdcBalance tr,
              rep_conwayCredits = conwayCredits tr,
              rep_totalInvested = or_num (totalInvested s) 0,
              rep_totalEarned = or_num (totalEarned s) 0,
              rep_netPnl = js_sub (or_num (totalEarned s) 0) (or_num (totalInvested s) 0),
              rep_deployedTokenCount = length (or_list (deployedTokens s) []),
              rep_activeTokens = length (activeTokens s) \<rparr>))"

text \<open>Lines 251 to 258: the call is inside a \<^verbatim>\<open>try\<close>.\<close>

definition swap_to_usdc :: "world \<Rightarrow> real \<Rightarrow> message + SwapResult tool_result" where
  "swap_to_usdc w amountSol =
     (case swapSolToUsdc w amountSol of
        Inl err \<Rightarrow> Inr (Error err)
      | Inr result \<Rightarrow> Inr (Success result))"

subsection \<open>PortfolioMonitor (monitor/portfolio.ts)\<close>

record TokenPerformance =
  perf_mint :: string
  perf_symbol :: string
  perf_name :: string
  perf_status :: token_status
  perf_deployedAt :: int
  ageHours :: real
  price :: real
  volume24h :: real
  holders :: nat
  feesEarned :: real
  retainedValue :: real

record PortfolioSummary =
  ps_totalTokens :: nat
  ps_activeTokens :: nat
  ps_deadTokens :: nat
  ps_totalValueSol :: real
  ps_totalFeesEarned :: real
  ps_tokens :: "TokenPerformance list"

text \<open>
  The on-chain lookups sit in an outer \<^verbatim>\<open>try\<close> and the price lookup in an inner one,
  both with an empty \<^verbatim>\<open>catch\<close>; \<^verbatim>\<open>volume24h\<close> and \<^verbatim>\<open>retainedValue\<close> are the literal 0.
\<close>

definition getTokenPerformance :: "world \<Rightarrow> nat \<Rightarrow> DeployedToken \<Rightarrow> TokenPerformance" where
  "getTokenPerformance w k token =
     (let age = js_div (real_of_int (clock w k - deployedAt token)) (1000 * 60 * 60);
          chain = onChainHolders w k (mint token);
          hs = (case chain of Inl _ \<Rightarrow> 0 | Inr n \<Rightarrow> n);
          pr = (case chain of
                  Inl _ \<Rightarrow> 0
                | Inr _ \<Rightarrow>
                    (case dexScreenerPrice w k (mint token) of
                       Inl _ \<Rightarrow> 0
                     | Inr pair \<Rightarrow> or_num pair 0))
      in \<lparr> perf_mint = mint token, perf_symbol = symbol token, perf_name = name token,
           perf_status = status token, perf_deployedAt = deployedAt token,
           ageHours = js_div (real_of_int (js_round (js_mul age 10))) 10,
           price = pr, volume24h = 0, holders = hs,
           feesEarned = totalFeesEarned token, retainedValue = 0 \<rparr>)"

text \<open>The loop of \<^verbatim>\<open>getFullPortfolio\<close> on its three accumulators.\<close>

fun portfolio_loop ::
  "world \<Rightarrow> nat \<Rightarrow> DeployedToken list \<Rightarrow> TokenPerformance list \<times> real \<times> real
     \<Rightarrow> TokenPerformance list \<times> real \<times> real"
where
  "portfolio_loop w k [] acc = acc"
| "portfolio_loop w k (token # rest) (performances, totalValueSol, totalFees) =
     (let perf = getTokenPerformance w k token
      in portfolio_loop w (Suc k) rest
           (performances @ [perf], js_add totalValueSol (retainedValue perf),
            js_add totalFees (feesEarned perf)))"

definition getFullPortfolio :: "world \<Rightarrow> DeployedToken list \<Rightarrow> PortfolioSummary" where
  "getFullPortfolio w tokens =
     (case portfolio_loop w 0 tokens ([], 0, 0) of
        (performances, totalValueSol, totalFees) \<Rightarrow>
          \<lparr> ps_totalTokens = length tokens,
            ps_activeTokens = length (filter (\<lambda>t. status t = active) tokens),
            ps_deadTokens = length (filter (\<lambda>t. status t = dead) tokens),
            ps_totalValueSol = totalValueSol,
            ps_totalFeesEarned = totalFees,
            ps_tokens = performances \<rparr>)"

subsection \<open>The heartbeat portfolio\_check\<close>

text \<open>\<^verbatim>\<open>Array.prototype.findIndex\<close>: the first index that satisfies, \<open>None\<close> for -1.\<close>

fun findIndex :: "('a \<Rightarrow> bool) \<Rightarrow> 'a list \<Rightarrow> nat option" where
  "findIndex P [] = None"
| "findIndex P (x # xs) = (if P x then Some 0 else map_option Suc (findIndex P xs))"

text \<open>
  Lines 281 to 286. The loop runs over the performance entries and writes into the
  registry's own array. \<^verbatim>\<open>Date.now()\<close> stands to the right of \<^verbatim>\<open>&&\<close>, so a turn reads
  the clock only when the entry's volume is 0; the readings follow those that
  \<^verbatim>\<open>getFullPortfolio\<close> made, so \<open>k\<close> starts at the number of positions.
\<close>

fun mark_dead :: "world \<Rightarrow> nat \<Rightarrow> TokenPerformance list \<Rightarrow> DeployedToken list \<Rightarrow> DeployedToken list" where
  "mark_dead w k [] tokens = tokens"
| "mark_dead w k (token # rest) tokens =
     (if volume24h token = 0
      then mark_dead w (Suc k) rest
             (if clock w k - perf_deployedAt token > 86400000
              then (case findIndex (\<lambda>t. mint t = perf_mint token) tokens of
                      None \<Rightarrow> tokens
                    | Some idx \<Rightarrow> tokens[idx := (tokens ! idx)\<lparr> status := dead \<rparr>])
              else tokens)
      else mark_dead w k rest tokens)"

definition portfolio_check :: "world \<Rightarrow> skill_state \<Rightarrow> skill_state" where
  "portfolio_check w s =
     (let tokens = or_list (deployedTokens s) [] in
      if length tokens = 0 then s
      else
        let portfolio = getFullPortfolio w tokens
        in s\<lparr> deployedTokens := Some (mark_dead w (length tokens) (ps_tokens portfolio) tokens) \<rparr>)"

subsection \<open>SurvivalMapper.checkStatus (monitor/survival.ts)\<close>

datatype survival_tier = tier_normal | tier_low_compute | tier_critical | tier_dead

record SurvivalStatus =
  tier :: survival_tier
  st_conwayCredits :: real
  estimatedRunwayHours :: real
  st_solBalance :: real
  st_usdcBalance :: real
  action :: message

definition CONWAY_COST_PER_HOUR_NORMAL :: real where
  "CONWAY_COST_PER_HOUR_NORMAL = 0.5"

definition CONWAY_COST_PER_HOUR_LOW :: real where
  "CONWAY_COST_PER_HOUR_LOW = fl 0.1"

definition CONWAY_COST_PER_HOUR_CRITICAL :: real where
  "CONWAY_COST_PER_HOUR_CRITICAL = fl 0.02"

text \<open>Lines 163 to 179: tier, action and cost per hour from the credits alone.\<close>

definition determine_tier :: "real \<Rightarrow> survival_tier \<times> message \<times> real" where
  "determine_tier credits =
     (if credits > js_mul 24 CONWAY_COST_PER_HOUR_NORMAL
      then (tier_normal,
            [Txt ''Operating normally. Continue deploying tokens.''],
            CONWAY_COST_PER_HOUR_NORMAL)
      else if credits > js_mul 12 CONWAY_COST_PER_HOUR_LOW
      then (tier_low_compute,
            [Txt ''Low credits. Switch to cheaper model. Prioritize fee harvesting.''],
            CONWAY_COST_PER_HOUR_LOW)
      else if credits > 0
      then (tier_critical,
            [Txt ''CRITICAL. Harvest all fees immediately. Bridge USDC to Base. Stop new deployments.''],
            CONWAY_COST_PER_HOUR_CRITICAL)
      else (tier_dead, [Txt ''No credits remaining. Agent will stop.''], 0))"

definition checkStatus :: "world \<Rightarrow> treasury \<Rightarrow> SurvivalStatus" where
  "checkStatus w tr =
     (let credits = conwayCredits tr in
      case determine_tier credits of
        (tr_tier, action0, costPerHour) \<Rightarrow>
          let runway = (if costPerHour > 0 then js_div credits costPerHour else 0);
              action1 =
                (if (tr_tier = tier_low_compute \<or> tr_tier = tier_critical) \<and> usdcBalance tr > 1
                 then
                   let bridgeAmount = min (js_mul (usdcBalance tr) (fl 0.8)) 50 in
                   (case bridgeUsdcToBase w bridgeAmount of
                      Inl err \<Rightarrow> action0 @ [Txt '' Bridge attempt failed: ''] @ err
                    | Inr _ \<Rightarrow>
                        (case topUpConwayCredits w bridgeAmount of
                           Inl err \<Rightarrow> action0 @ [Txt '' Bridge attempt failed: ''] @ err
                         | Inr _ \<Rightarrow>
                             action0 @ [Txt '' Auto-bridging '', Num bridgeAmount,
                                        Txt '' USDC to Conway.'']))
                 else action0)
          in \<lparr> tier = tr_tier,
               st_conwayCredits = credits,
               estimatedRunwayHours = js_div (real_of_int (js_round (js_mul runway 10))) 10,
               st_solBalance = solBalance tr,
               st_usdcBalance = usdcBalance tr,
               action = action1 \<rparr>)"

subsection \<open>Concrete configurations, worlds and registries\<close>

text \<open>What \<^verbatim>\<open>loadConfig\<close> builds from an environment that sets only the creator.\<close>

definition default_config :: TokenLauncherConfig where
  "default_config =
     \<lparr> creatorAddress = ''Creator111'', creatorFeeSplit = 10, pumpfunEnabled = True,
       raydiumEnabled = True, survivalReserveSol = 0.5, maxConcurrentTokens = 5,
       deployCooldownMs = 60 * 60000 \<rparr>"

definition launch_result :: "string \<Rightarrow> real \<Rightarrow> DeployResult" where
  "launch_result m kept =
     \<lparr> r_mint = m, r_supply = 1000000000, r_retainedAmount = kept, r_lpAddress = None,
       r_txSignature = ''sig'' @ m \<rparr>"

text \<open>
  A world in which every call succeeds: the wallet holds 3 SOL, the pool manager
  answers with the placeholders of \<^verbatim>\<open>raydium.ts\<close>, and creator fees of \<^verbatim>\<open>0.05\<close> SOL (the
  double) are found.
\<close>

definition calm_world :: world where
  "calm_world =
     \<lparr> clock = (\<lambda>k. 1700000000000 + int k),
       getBalance = Inr 3000000000,
       getUsdcAccount = Inr 3000000,
       deployViaPumpFun = (\<lambda>_. Inr (launch_result ''MintPump'' 0)),
       deployDirect = (\<lambda>_. Inr (launch_result ''MintDirect'' 50000000)),
       utilityDeploy = (\<lambda>_. Inr (launch_result ''MintUtility'' 50000000)),
       createPool = (\<lambda>_ _. Inr \<lparr> poolAddress = ''PLACEHOLDER_POOL_ADDRESS'',
                                lpMint = ''PLACEHOLDER_LP_MINT'',
                                pool_txSignature = ''PLACEHOLDER_TX'' \<rparr>),
       collectFees = (\<lambda>_ _. Inr \<lparr> solFees = 0, tokenFees = 0,
                                 fee_txSignature = ''PLACEHOLDER_TX'' \<rparr>),
       checkPumpFunCreatorFees = (\<lambda>_ _. fl 0.05),
       sendSol = (\<lambda>_ _. Inr ''sigPayout''),
       swapSolToUsdc = (\<lambda>a. Inr \<lparr> inputAmount = a, outputAmount = js_mul 150 a,
                                 swap_txSignature = ''sigSwap'' \<rparr>),
       onChainHolders = (\<lambda>_ _. Inr 20),
       dexScreenerPrice = (\<lambda>_ _. Inr None),
       bridgeUsdcToBase = (\<lambda>_. Inr ()),
       topUpConwayCredits = (\<lambda>_. Inr ()) \<rparr>"

definition plain_params :: deploy_params where
  "plain_params =
     \<lparr> p_name = ''Conway Cat'', p_symbol = ''CCAT'', p_description = ''A cat'',
       p_imagePrompt = None, p_initialBuySol = None, p_lpSol = None, p_method = None \<rparr>"

definition plain_utility_params :: utility_params where
  "plain_utility_params =
     \<lparr> u_name = ''Conway Credit'', u_symbol = ''CCR'', u_description = ''A utility token'',
       u_supply = None, u_decimals = None, u_freezeAuthority = None, u_lpSol = Some 1 \<rparr>"

definition fresh_state :: skill_state where
  "fresh_state =
     \<lparr> deployedTokens = None, lastDeployTimestamp = None, totalInvested = None,
       totalEarned = None \<rparr>"

definition sample_token :: "string \<Rightarrow> deploy_method \<Rightarrow> string option \<Rightarrow> int \<Rightarrow> token_status \<Rightarrow> DeployedToken" where
  "sample_token m how pool born st =
     \<lparr> mint = m, name = ''Token '' @ m, symbol = m, token_method = how, deployedAt = born,
       lpAddress = pool, initialSupply = 1000000000, retainedSupply = 0,
       totalFeesEarned = 0, status = st \<rparr>"





definition rpc_down_world :: world where
  "rpc_down_world = calm_world\<lparr> getBalance := Inl [Txt ''failed to get balance of account''] \<rparr>"

text \<open>
  A registry that is full under a limit of one position, one second after its last
  deployment, and a world whose wallet is empty.
\<close>

definition strict_config :: TokenLauncherConfig where
  "strict_config = default_config\<lparr> maxConcurrentTokens := 1 \<rparr>"

definition busy_state :: skill_state where
  "busy_state =
     \<lparr> deployedTokens = Some [sample_token ''MintPump'' pumpfun None 1699999999000 active],
       lastDeployTimestamp = Some 1699999999000,
       totalInvested = Some 1.55,
       totalEarned = None \<rparr>"

definition drained_world :: world where
  "drained_world = calm_world\<lparr> getBalance := Inr 0 \<rparr>"

text \<open>Registries with fees to harvest, and worlds in which a fee query or the payout fails.\<close>

definition earning_state :: skill_state where
  "earning_state =
     fresh_state\<lparr> deployedTokens :=
       Some [sample_token ''MintPump'' pumpfun None 1699990000000 active] \<rparr>"

definition two_pool_tokens :: "DeployedToken list" where
  "two_pool_tokens =
     [sample_token ''MintPump'' pumpfun (Some ''PoolA'') 1699990000000 active,
      sample_token ''MintDirect'' spl_direct (Some ''PoolB'') 1699990000000 active]"

definition pool_down_world :: world where
  "pool_down_world =
     calm_world\<lparr> collectFees :=
       (\<lambda>k _. if k = 0 then Inl [Txt ''pool account not found'']
               else Inr \<lparr> solFees = fl 0.2, tokenFees = 0, fee_txSignature = ''sigFee'' \<rparr>) \<rparr>"

text \<open>The same registry with \<^verbatim>\<open>0.1\<close> SOL (the double) earned before.\<close>

definition earned_before_state :: skill_state where
  "earned_before_state = earning_state\<lparr> totalEarned := Some (fl 0.1) \<rparr>"

definition payout_down_world :: world where
  "payout_down_world = calm_world\<lparr> sendSol := (\<lambda>_ _. Inl [Txt ''insufficient lamports'']) \<rparr>"

text \<open>
  A registry with a graduated position deployed 25 hours before the clock of
  \<open>calm_world\<close> and an active one deployed 1000 seconds before it.
\<close>

definition aged_tokens :: "DeployedToken list" where
  "aged_tokens =
     [sample_token ''MintOld'' pumpfun (Some ''PoolA'') 1699910000000 graduated,
      sample_token ''MintNew'' spl_direct None 1699999000000 active]"

definition aged_state :: skill_state where
  "aged_state = fresh_state\<lparr> deployedTokens := Some aged_tokens \<rparr>"

section \<open>Properties\<close>

subsection \<open>Evaluating the rounding\<close>

lemma scale_up_exact:
  "0 < q \<Longrightarrow> 2 ^ 52 \<le> q * 2 ^ n \<Longrightarrow> q * 2 ^ n < 2 ^ 53 \<Longrightarrow> int n \<le> e + 1074
   \<Longrightarrow> scale_up q e = (q * 2 ^ n, e - int n)"
proof (induction n arbitrary: q e)
  case 0
  then show ?case by (simp add: scale_up.simps)
next
  case (Suc n)
  have "(1::real) \<le> 2 ^ n" by simp
  with Suc.prems(1) have "q * 2 * 1 \<le> q * 2 * 2 ^ n"
    by (intro mult_left_mono) simp_all
  with Suc.prems(3) have small: "q < 2 ^ 52" by simp
  from Suc.prems have room: "- 1074 < e" by simp
  have "scale_up q e = scale_up (2 * q) (e - 1)"
    using Suc.prems(1) small room by (subst scale_up.simps) simp
  also have "\<dots> = (2 * q * 2 ^ n, e - 1 - int n)"
    using Suc.prems by (intro Suc.IH) (simp_all add: mult.assoc)
  finally show ?case by (simp add: mult.assoc)
qed

text \<open>
  A positive \<open>x\<close> that \<open>2 ^ n\<close> scales into \<open>[2 ^ 52, 2 ^ 53)\<close> is rounded there, to an
  integer, and scaled back.
\<close>

lemma fl_eval:
  assumes "0 < x" and "2 ^ 52 \<le> x * 2 ^ n" and "x * 2 ^ n < 2 ^ 53" and "n \<le> 1074"
  shows "fl x = real_of_int (round_even (x * 2 ^ n)) / 2 ^ n"
proof -
  have up: "scale_up x 0 = (x * 2 ^ n, - int n)"
    using scale_up_exact [of x n 0] assms by simp
  have down: "scale_down (x * 2 ^ n) (- int n) = (x * 2 ^ n, - int n)"
    using assms(3) by (subst scale_down.simps) simp
  show ?thesis
    using assms(1) by (simp add: fl_def up down power_int_minus divide_inverse)
qed

lemma fl_zero [simp]: "fl 0 = 0"
  by (simp add: fl_def scale_up.simps scale_down.simps round_even_def)

text \<open>
  The roundings that the concrete inputs below need, each evaluated through \<open>fl_eval\<close>
  at the exponent of its argument. The arguments are written as the simplifier
  normalises them: \<open>1 / 20\<close> is the literal \<^verbatim>\<open>0.05\<close>, and
  \<open>3602879701896397 / 2 ^ 56\<close> is the double nearest to it.
\<close>

lemma fl_0_05 [simp]: "fl (1 / 20) = 3602879701896397 / 72057594037927936"
  by (subst fl_eval [where n = 57]) (simp_all add: round_even_def)

lemma fl_0_1 [simp]: "fl (1 / 10) = 3602879701896397 / 36028797018963968"
  by (subst fl_eval [where n = 56]) (simp_all add: round_even_def)

lemma fl_0_2 [simp]: "fl (1 / 5) = 3602879701896397 / 18014398509481984"
  by (subst fl_eval [where n = 55]) (simp_all add: round_even_def)

lemma fl_0_45 [simp]: "fl (9 / 20) = 8106479329266893 / 18014398509481984"
  by (subst fl_eval [where n = 54]) (simp_all add: round_even_def)

lemma fl_3e9 [simp]: "fl 3000000000 = 3000000000"
  by (subst fl_eval [where n = 21]) (simp_all add: round_even_def)

lemma fl_2e9 [simp]: "fl 2000000000 = 2000000000"
  by (subst fl_eval [where n = 22]) (simp_all add: round_even_def)

lemma fl_3e6 [simp]: "fl 3000000 = 3000000"
  by (subst fl_eval [where n = 31]) (simp_all add: round_even_def)

lemma fl_3 [simp]: "fl 3 = 3"
  by (subst fl_eval [where n = 51]) (simp_all add: round_even_def)

lemma fl_2 [simp]: "fl 2 = 2"
  by (subst fl_eval [where n = 51]) (simp_all add: round_even_def)

lemma fl_1_5 [simp]: "fl (3 / 2) = 3 / 2"
  by (subst fl_eval [where n = 52]) (simp_all add: round_even_def)

lemma fl_0_5 [simp]: "fl (1 / 2) = 1 / 2"
  by (subst fl_eval [where n = 53]) (simp_all add: round_even_def)

lemma fl_12 [simp]: "fl 12 = 12"
  by (subst fl_eval [where n = 49]) (simp_all add: round_even_def)

lemma fl_cost_plain [simp]: "fl (111689270758788301 / 72057594037927936) = 6980579422424269 / 4503599627370496"
  by (subst fl_eval [where n = 52]) (simp_all add: round_even_def)

lemma fl_d155 [simp]: "fl (6980579422424269 / 4503599627370496) = 6980579422424269 / 4503599627370496"
  by (subst fl_eval [where n = 52]) (simp_all add: round_even_def)

lemma fl_3_minus_cost [simp]: "fl (6530219459687219 / 4503599627370496) = 6530219459687219 / 4503599627370496"
  by (subst fl_eval [where n = 52]) (simp_all add: round_even_def)

lemma fl_045_plus_1 [simp]: "fl (26120877838748877 / 18014398509481984) = 6530219459687219 / 4503599627370496"
  by (subst fl_eval [where n = 52]) (simp_all add: round_even_def)

lemma fl_cost_boundary [simp]: "fl (108086391056891901 / 72057594037927936) = 3 / 2"
  by (subst fl_eval [where n = 52]) (simp_all add: round_even_def)

lemma fl_wait [simp]: "fl (3509999 / 60000) = 4116570361580941 / 70368744177664"
  by (subst fl_eval [where n = 47]) (simp_all add: round_even_def)

lemma fl_12_times_01 [simp]: "fl (10808639105689191 / 9007199254740992) = 1351079888211149 / 1125899906842624"
  by (subst fl_eval [where n = 52]) (simp_all add: round_even_def)

lemma fl_d05 [simp]: "fl (3602879701896397 / 72057594037927936) = 3602879701896397 / 72057594037927936"
  by (subst fl_eval [where n = 57]) (simp_all add: round_even_def)

lemma fl_d02 [simp]: "fl (3602879701896397 / 18014398509481984) = 3602879701896397 / 18014398509481984"
  by (subst fl_eval [where n = 55]) (simp_all add: round_even_def)

lemma fl_d01_plus_d05 [simp]: "fl (10808639105689191 / 72057594037927936) = 1351079888211149 / 9007199254740992"
  by (subst fl_eval [where n = 55]) (simp_all add: round_even_def)

lemma fl_d05_plus_d02 [simp]: "fl (18014398509481985 / 72057594037927936) = 1 / 4"
  by (subst fl_eval [where n = 54]) (simp_all add: round_even_def)


subsection \<open>Evaluating the concrete worlds\<close>







subsection \<open>Admission: the solvency gate\<close>

lemma deploy_memecoin_cases:
  "deploy_memecoin config w params s =
     (case getTreasuryState w of
        Inl err \<Rightarrow> (Inl err, s)
      | Inr tr \<Rightarrow>
          (case preflight config w tr params s of
             Some r \<Rightarrow> (Inr (Error (reason r)), s)
           | None \<Rightarrow>
               (case run_deploy config w params
                       (case p_method params of None \<Rightarrow> pumpfun | Some m' \<Rightarrow> m') of
                  Inl err \<Rightarrow> (Inr (Error err), s)
                | Inr result \<Rightarrow>
                    (Inr (Success result),
                     s\<lparr> deployedTokens := Some (or_list (deployedTokens s) [] @
                           [new_token (p_name params) (p_symbol params)
                              (case p_method params of None \<Rightarrow> pumpfun | Some m' \<Rightarrow> m')
                              (clock w 1) result]),
                        lastDeployTimestamp := Some (clock w 2),
                        totalInvested :=
                          Some (js_add (or_num (totalInvested s) 0) (totalCost params)) \<rparr>))))"
  by (simp add: deploy_memecoin_def Let_def split: sum.splits option.splits)



subsection \<open>Admission: the order of the gates\<close>









subsection \<open>Admission: what a call changes\<close>



subsection \<open>The ungated deployment tool\<close>

lemma deploy_utility_token_ledger:
  "lastDeployTimestamp (snd (deploy_utility_token config w params s)) = lastDeployTimestamp s
   \<and> totalInvested (snd (deploy_utility_token config w params s)) = totalInvested s
   \<and> totalEarned (snd (deploy_utility_token config w params s)) = totalEarned s"
  by (simp add: deploy_utility_token_def Let_def split: sum.splits)

text \<open>
  Claim C4 says that every tool that appends a position passes the concurrency,
  solvency and cooldown gates first, and on success advances the cooldown timestamp and
  adds its spend to \<^verbatim>\<open>totalInvested\<close>. \<^verbatim>\<open>deploy_utility_token\<close> does not. With a limit of
  one position and one active position registered, an empty wallet, and a deployment one
  second ago, \<^verbatim>\<open>deploy_memecoin\<close> rejects the request, while \<^verbatim>\<open>deploy_utility_token\<close> creates
  a pool with 1 SOL, appends a second active position and leaves \<^verbatim>\<open>lastDeployTimestamp\<close>
  and \<^verbatim>\<open>totalInvested\<close> as they were.
\<close>

theorem deploy_utility_token_ungated:
  "deploy_memecoin strict_config drained_world plain_params busy_state =
     (Inr (Error (reason (MaxConcurrent 1))), busy_state)
   \<and> deploy_utility_token strict_config drained_world plain_utility_params busy_state =
       (Inr (Success ((launch_result ''MintUtility'' 50000000)
                        \<lparr> r_lpAddress := Some ''PLACEHOLDER_POOL_ADDRESS'' \<rparr>)),
        \<lparr> deployedTokens = Some
            [sample_token ''MintPump'' pumpfun None 1699999999000 active,
             \<lparr> mint = ''MintUtility'', name = ''Conway Credit'', symbol = ''CCR'',
               token_method = spl_direct, deployedAt = 1700000000000,
               lpAddress = Some ''PLACEHOLDER_POOL_ADDRESS'', initialSupply = 1000000000,
               retainedSupply = 50000000, totalFeesEarned = 0, status = active \<rparr>],
          lastDeployTimestamp = Some 1699999999000,
          totalInvested = Some 1.55,
          totalEarned = None \<rparr>)
   \<and> length (activeTokens
         (snd (deploy_utility_token strict_config drained_world plain_utility_params busy_state))) = 2"
proof -
  have tr: "getTreasuryState drained_world =
      Inr \<lparr> solBalance = 0, usdcBalance = 3, conwayCredits = 0 \<rparr>"
    by (simp add: getTreasuryState_def drained_world_def calm_world_def LAMPORTS_PER_SOL_def
        js_div_def)
  have act: "activeTokens busy_state = [sample_token ''MintPump'' pumpfun None 1699999999000 active]"
    by (simp add: activeTokens_def busy_state_def or_list_def sample_token_def)
  have pf: "preflight strict_config drained_world
      \<lparr> solBalance = 0, usdcBalance = 3, conwayCredits = 0 \<rparr> plain_params busy_state
      = Some (MaxConcurrent 1)"
    by (simp add: preflight_def act strict_config_def default_config_def)
  have a: "deploy_memecoin strict_config drained_world plain_params busy_state =
     (Inr (Error (reason (MaxConcurrent 1))), busy_state)"
    by (simp add: deploy_memecoin_cases tr pf)
  have pool: "attach_pool strict_config drained_world (u_lpSol plain_utility_params)
      (launch_result ''MintUtility'' 50000000) =
      Inr ((launch_result ''MintUtility'' 50000000)\<lparr> r_lpAddress := Some ''PLACEHOLDER_POOL_ADDRESS'' \<rparr>)"
    by (simp add: attach_pool_def strict_config_def default_config_def plain_utility_params_def
        truthy_num_def drained_world_def calm_world_def)
  have dep: "utilityDeploy drained_world plain_utility_params =
      Inr (launch_result ''MintUtility'' 50000000)"
    by (simp add: drained_world_def calm_world_def)
  have b: "deploy_utility_token strict_config drained_world plain_utility_params busy_state =
       (Inr (Success ((launch_result ''MintUtility'' 50000000)
                        \<lparr> r_lpAddress := Some ''PLACEHOLDER_POOL_ADDRESS'' \<rparr>)),
        \<lparr> deployedTokens = Some
            [sample_token ''MintPump'' pumpfun None 1699999999000 active,
             \<lparr> mint = ''MintUtility'', name = ''Conway Credit'', symbol = ''CCR'',
               token_method = spl_direct, deployedAt = 1700000000000,
               lpAddress = Some ''PLACEHOLDER_POOL_ADDRESS'', initialSupply = 1000000000,
               retainedSupply = 50000000, totalFeesEarned = 0, status = active \<rparr>],
          lastDeployTimestamp = Some 1699999999000,
          totalInvested = Some 1.55,
          totalEarned = None \<rparr>)"
  proof -
    have run: "deploy_utility_token strict_config drained_world plain_utility_params busy_state =
        (Inr (Success ((launch_result ''MintUtility'' 50000000)
                         \<lparr> r_lpAddress := Some ''PLACEHOLDER_POOL_ADDRESS'' \<rparr>)),
         busy_state\<lparr> deployedTokens := Some (or_list (deployedTokens busy_state) [] @
            [new_token (u_name plain_utility_params) (u_symbol plain_utility_params) spl_direct
               (clock drained_world 0)
               ((launch_result ''MintUtility'' 50000000)
                  \<lparr> r_lpAddress := Some ''PLACEHOLDER_POOL_ADDRESS'' \<rparr>)]) \<rparr>)"
      by (simp add: deploy_utility_token_def dep pool Let_def)
    show ?thesis
      unfolding run
      by (simp add: new_token_def launch_result_def plain_utility_params_def busy_state_def
          or_list_def drained_world_def calm_world_def)
  qed
  have c: "length (activeTokens
         (snd (deploy_utility_token strict_config drained_world plain_utility_params busy_state))) = 2"
    by (simp add: b activeTokens_def or_list_def sample_token_def)
  from a b c show ?thesis by blast
qed

subsection \<open>The tool boundary\<close>

lemma swap_to_usdc_returns: "\<exists>r. swap_to_usdc w amountSol = Inr r"
  by (simp add: swap_to_usdc_def split: sum.splits)

lemma harvest_fees_returns: "\<exists>r. fst (harvest_fees config w tokenMint_param s) = Inr r"
  by (simp add: harvest_fees_def Let_def split: sum.splits)

lemma deploy_utility_token_returns: "\<exists>r. fst (deploy_utility_token config w params s) = Inr r"
  by (simp add: deploy_utility_token_def Let_def split: sum.splits)

text \<open>
  Claim C9 says that no tool lets an exception pass the tool boundary, whatever the
  collaborators do. \<^verbatim>\<open>swap_to_usdc\<close>, \<^verbatim>\<open>harvest_fees\<close> and \<^verbatim>\<open>deploy_utility_token\<close> catch and
  return \<^verbatim>\<open>{error}\<close> (the three lemmas above), but \<^verbatim>\<open>check_treasury\<close> awaits
  \<^verbatim>\<open>getTreasuryState\<close> with no \<^verbatim>\<open>try\<close>, and \<^verbatim>\<open>deploy_memecoin\<close> awaits it before its \<^verbatim>\<open>try\<close>
  begins: when the RPC node fails to report the balance, both handlers reject with the
  node's message instead of returning \<^verbatim>\<open>{error}\<close>.
\<close>

theorem check_treasury_rejects:
  "check_treasury rpc_down_world fresh_state = Inl [Txt ''failed to get balance of account'']
   \<and> fst (deploy_memecoin default_config rpc_down_world plain_params fresh_state) =
       Inl [Txt ''failed to get balance of account'']
   \<and> swap_to_usdc (calm_world\<lparr> swapSolToUsdc := (\<lambda>_. Inl [Txt ''Jupiter quote failed: Bad Gateway'']) \<rparr>) 1 =
       Inr (Error [Txt ''Jupiter quote failed: Bad Gateway''])"
  by (simp add: check_treasury_def deploy_memecoin_def getTreasuryState_def rpc_down_world_def
      calm_world_def swap_to_usdc_def)

subsection \<open>Survival tiers\<close>

lemma tier_checkStatus: "tier (checkStatus w tr) = fst (determine_tier (conwayCredits tr))"
  by (simp add: checkStatus_def Let_def split: prod.splits)

text \<open>The two thresholds as the source computes them: \<^verbatim>\<open>12 * 0.1\<close> is not the double 1.2.\<close>

lemma tier_thresholds:
  "js_mul 24 CONWAY_COST_PER_HOUR_NORMAL = 12
   \<and> js_mul 12 CONWAY_COST_PER_HOUR_LOW = 1351079888211149 / 1125899906842624"
  by (simp add: js_mul_def CONWAY_COST_PER_HOUR_NORMAL_def CONWAY_COST_PER_HOUR_LOW_def)

text \<open>
  Claim C5, as amended. The tier that \<^verbatim>\<open>checkStatus\<close> returns depends on the credit balance
  alone, not on the other balances or on the bridge. It is normal when credits exceed
  24 h at 0.5/h, which is 12; low\_compute when they exceed 12 h at 0.1/h but not 12,
  where the product is the one the source computes, the double
  \<open>1351079888211149 / 2 ^ 50\<close> (printed 1.2000000000000002); critical when they are
  positive but do not exceed that double; and dead otherwise. Credits of 11 exceed the
  lower threshold, so their tier is low\_compute; credits of 1, and credits equal to the
  threshold itself, are critical; the next double above the threshold is low\_compute.
\<close>

theorem checkStatus_tier:
  "tier (checkStatus w tr) =
     (if conwayCredits tr > 12 then tier_normal
      else if conwayCredits tr > 1351079888211149 / 2 ^ 50 then tier_low_compute
      else if conwayCredits tr > 0 then tier_critical
      else tier_dead)
   \<and> tier (checkStatus w (tr\<lparr> conwayCredits := 11 \<rparr>)) = tier_low_compute
   \<and> tier (checkStatus w (tr\<lparr> conwayCredits := 1 \<rparr>)) = tier_critical
   \<and> tier (checkStatus w (tr\<lparr> conwayCredits := 1351079888211149 / 2 ^ 50 \<rparr>)) = tier_critical
   \<and> tier (checkStatus w (tr\<lparr> conwayCredits := 5404319552844597 / 2 ^ 52 \<rparr>)) = tier_low_compute
   \<and> tier (checkStatus w (tr\<lparr> conwayCredits := 0 \<rparr>)) = tier_dead"
  by (simp add: tier_checkStatus determine_tier_def tier_thresholds)

text \<open>The claim as it was stated puts credits of 11 in the critical tier.\<close>

theorem checkStatus_tier_counterexample:
  "tier (checkStatus calm_world \<lparr> solBalance = 3, usdcBalance = 3, conwayCredits = 11 \<rparr>)
     \<noteq> tier_critical"
  by (simp add: tier_checkStatus determine_tier_def tier_thresholds)

subsection \<open>The harvest loop\<close>

text \<open>
  The sum of a breakdown as the source forms it: a position's two fees are added first,
  then the result is added to the running total, which starts at 0; every addition is
  one of doubles.
\<close>

lemma harvest_loop_result:
  "breakdown (harvest_loop w k toks acc)
     = breakdown acc @ map (\<lambda>(j, t). harvest_entry w j t) (zip [k..<k + length toks] toks)
   \<and> totalHarvested (harvest_loop w k toks acc)
     = foldl (\<lambda>total e. js_add total (js_add (lpFees e) (creatorFees e))) (totalHarvested acc)
         (map (\<lambda>(j, t). harvest_entry w j t) (zip [k..<k + length toks] toks))"
proof (induction toks arbitrary: k acc)
  case Nil
  show ?case by simp
next
  case (Cons t ts)
  have "[k..<k + length (t # ts)] = k # [Suc k..<Suc k + length ts]"
    by (subst upt_rec) simp
  then show ?case
    by (simp add: Cons.IH harvest_step_def Let_def)
qed

lemma harvest_breakdown:
  "breakdown (harvest w target tokens)
   = map (\<lambda>(j, t). harvest_entry w j t)
       (zip [0..<length (harvest_scope target tokens)] (harvest_scope target tokens))"
  using harvest_loop_result [of w 0 "harvest_scope target tokens"
      "\<lparr> totalHarvested = 0, breakdown = [], txSignatures = [] \<rparr>"]
  by (simp add: harvest_def)

lemma harvest_total:
  "totalHarvested (harvest w target tokens)
   = foldl (\<lambda>total e. js_add total (js_add (lpFees e) (creatorFees e))) 0
       (breakdown (harvest w target tokens))"
  using harvest_loop_result [of w 0 "harvest_scope target tokens"
      "\<lparr> totalHarvested = 0, breakdown = [], txSignatures = [] \<rparr>"]
  by (simp add: harvest_def)

lemma harvest_breakdown_nth:
  assumes "j < length (harvest_scope target tokens)"
  shows "breakdown (harvest w target tokens) ! j = harvest_entry w j (harvest_scope target tokens ! j)"
  using assms by (simp add: harvest_breakdown)

lemma harvest_breakdown_length:
  "length (breakdown (harvest w target tokens)) = length (harvest_scope target tokens)"
  by (simp add: harvest_breakdown)

lemma harvest_fees_state:
  "snd (harvest_fees config w tokenMint_param s) =
     s\<lparr> totalEarned := Some (js_add (or_num (totalEarned s) 0)
            (totalHarvested (harvest w (if truthy_str tokenMint_param then the tokenMint_param else ''all'')
                (or_list (deployedTokens s) [])))) \<rparr>"
  by (simp add: harvest_fees_def Let_def split: sum.splits)

lemma harvest_earning_registry:
  "harvest w ''all'' [sample_token ''MintPump'' pumpfun None 1699990000000 active] =
     \<lparr> totalHarvested = js_add 0 (js_add 0 (checkPumpFunCreatorFees w 0 ''MintPump'')),
       breakdown = [\<lparr> tokenMint = ''MintPump'', b_symbol = ''MintPump'', lpFees = 0,
                      creatorFees = checkPumpFunCreatorFees w 0 ''MintPump'' \<rparr>],
       txSignatures = [] \<rparr>"
  by (simp add: harvest_def harvest_scope_def sample_token_def harvest_step_def harvest_entry_def
      harvest_sigs_def lp_query_def creator_query_def truthy_str_def Let_def)

lemma creator_fees_total: "js_add 0 (js_add 0 (fl 0.05)) = 3602879701896397 / 72057594037927936"
  by (simp add: js_add_def)

subsection \<open>Harvest and the ledger\<close>

text \<open>
  Claim C6. Let \<open>r\<close> be what the harvester returns for the scope of a \<^verbatim>\<open>harvest_fees\<close> call.
  After the call, \<^verbatim>\<open>totalEarned\<close> is its value before (0 when the key is absent) plus the
  sum of \<open>lpFees + creatorFees\<close> over the breakdown of \<open>r\<close>, exactly: the sum is taken as
  the source takes it, each position's two fees first and the positions in the order of
  the breakdown, from 0, and every \<open>+\<close> is the addition of doubles. The tool returns \<open>r\<close>,
  unless there is a creator share to pay and the transfer fails: then it returns the
  transfer's error, and \<^verbatim>\<open>totalEarned\<close> keeps the sum all the same.
\<close>

theorem harvest_fees_ledger:
  assumes r: "r = harvest w (if truthy_str tokenMint_param then the tokenMint_param else ''all'')
                    (or_list (deployedTokens s) [])"
      and share: "share = js_mul (totalHarvested r) (js_div (real_of_int (creatorFeeSplit config)) 100)"
      and after: "after = totalEarned (snd (harvest_fees config w tokenMint_param s))"
      and paid: "paid = foldl (\<lambda>total e. js_add total (js_add (lpFees e) (creatorFees e))) 0
                        (breakdown r)"
  shows "after = Some (js_add (or_num (totalEarned s) 0) paid)
       \<and> (fst (harvest_fees config w tokenMint_param s) = Inr (Success r)
          \<or> (\<exists>err. sendSol w (creatorAddress config) share = Inl err
                 \<and> fst (harvest_fees config w tokenMint_param s) = Inr (Error err)))
       \<and> (\<forall>err. totalHarvested r > 0 \<and> creatorFeeSplit config > 0
                 \<and> sendSol w (creatorAddress config) share = Inl err \<longrightarrow>
              fst (harvest_fees config w tokenMint_param s) = Inr (Error err)
              \<and> after = Some (js_add (or_num (totalEarned s) 0) paid))"
proof -
  have total: "totalHarvested r = paid"
    unfolding r paid by (rule harvest_total)
  have a: "after = Some (js_add (or_num (totalEarned s) 0) paid)"
    unfolding after harvest_fees_state using total r by simp
  have b: "fst (harvest_fees config w tokenMint_param s) = Inr (Success r)
          \<or> (\<exists>err. sendSol w (creatorAddress config) share = Inl err
                 \<and> fst (harvest_fees config w tokenMint_param s) = Inr (Error err))"
    unfolding r share by (simp add: harvest_fees_def Let_def split: sum.splits)
  have c: "\<forall>err. totalHarvested r > 0 \<and> creatorFeeSplit config > 0
                 \<and> sendSol w (creatorAddress config) share = Inl err \<longrightarrow>
              fst (harvest_fees config w tokenMint_param s) = Inr (Error err)"
    unfolding r share by (simp add: harvest_fees_def Let_def split: sum.splits)
  from a b c show ?thesis by blast
qed

text \<open>
  One pump.fun position for which creator fees of \<^verbatim>\<open>0.05\<close> are found, \<^verbatim>\<open>0.1\<close> earned before,
  and a transfer to the creator that fails: the tool returns the transfer's error and
  \<^verbatim>\<open>totalEarned\<close> is the double \<open>1351079888211149 / 2 ^ 53\<close>, which \<^verbatim>\<open>0.1 + 0.05\<close> gives
  (printed 0.15000000000000002).
\<close>

theorem harvest_fees_ledger_witness:
  "fst (harvest_fees default_config payout_down_world None earned_before_state) =
     Inr (Error [Txt ''insufficient lamports''])
   \<and> totalEarned (snd (harvest_fees default_config payout_down_world None earned_before_state)) =
       Some (1351079888211149 / 2 ^ 53)"
proof -
  let ?fee = "3602879701896397 / 72057594037927936 :: real"
  let ?r = "\<lparr> totalHarvested = ?fee,
             breakdown = [\<lparr> tokenMint = ''MintPump'', b_symbol = ''MintPump'', lpFees = 0,
                            creatorFees = ?fee \<rparr>],
             txSignatures = [] \<rparr>"
  have registry: "or_list (deployedTokens earned_before_state) [] =
      [sample_token ''MintPump'' pumpfun None 1699990000000 active]"
    by (simp add: earned_before_state_def earning_state_def fresh_state_def or_list_def)
  have found: "checkPumpFunCreatorFees payout_down_world 0 ''MintPump'' = ?fee"
    by (simp add: payout_down_world_def calm_world_def)
  have r: "?r = harvest payout_down_world (if truthy_str None then the None else ''all'')
               (or_list (deployedTokens earned_before_state) [])"
    unfolding registry
    by (simp add: truthy_str_def harvest_earning_registry found js_add_def)
  have pay: "totalHarvested ?r > 0 \<and> creatorFeeSplit default_config > 0
      \<and> sendSol payout_down_world (creatorAddress default_config)
           (js_mul (totalHarvested ?r) (js_div (real_of_int (creatorFeeSplit default_config)) 100))
         = Inl [Txt ''insufficient lamports'']"
    by (simp add: default_config_def payout_down_world_def)
  have stored: "js_add (or_num (totalEarned earned_before_state) 0)
      (foldl (\<lambda>total e. js_add total (js_add (lpFees e) (creatorFees e))) 0 (breakdown ?r))
      = 1351079888211149 / 2 ^ 53"
    by (simp add: or_num_def earned_before_state_def js_add_def)
  from harvest_fees_ledger [OF r refl refl refl, of default_config] pay
  have "fst (harvest_fees default_config payout_down_world None earned_before_state) =
          Inr (Error [Txt ''insufficient lamports''])
        \<and> totalEarned (snd (harvest_fees default_config payout_down_world None earned_before_state)) =
          Some (js_add (or_num (totalEarned earned_before_state) 0)
            (foldl (\<lambda>total e. js_add total (js_add (lpFees e) (creatorFees e))) 0 (breakdown ?r)))"
    by blast
  then show ?thesis
    unfolding stored .
qed

subsection \<open>Harvest with a failing fee query\<close>

text \<open>What one turn of the loop enters for a position, in terms of the collaborators.\<close>

lemma harvest_entry_explicit:
  "harvest_entry w k t =
     \<lparr> tokenMint = mint t, b_symbol = symbol t,
       lpFees = (case lpAddress t of
                   None \<Rightarrow> 0
                 | Some b \<Rightarrow>
                     if b = [] then 0
                     else (case collectFees w k b of Inl _ \<Rightarrow> 0 | Inr fr \<Rightarrow> solFees fr)),
       creatorFees = (if token_method t = pumpfun then checkPumpFunCreatorFees w k (mint t) else 0) \<rparr>"
  by (simp add: harvest_entry_def lp_query_def creator_query_def truthy_str_def Let_def
      split: option.splits sum.splits)

text \<open>
  Claim C7. Let \<open>toks\<close> be the positions in scope of a harvest (the active ones, or the
  active ones with the requested mint), and let the liquidity-fee query of position \<open>i\<close>
  fail: it has a pool and \<^verbatim>\<open>collectFees\<close> rejects. The harvest still returns. Its
  breakdown has one entry per position in scope. The entry of \<open>i\<close> has \<open>lpFees = 0\<close> and
  the creator fees found for \<open>i\<close> (0 unless it is a pump.fun launch). The entry of every
  other position is the one its own queries give: its \<open>lpFees\<close> is the \<open>solFees\<close> that
  \<^verbatim>\<open>collectFees\<close> returned for its pool, 0 when it has no pool or its own query failed, and
  its \<open>creatorFees\<close> is what the creator-fee check returned for it, 0 when it is no
  pump.fun launch. The total is the sum of these entries, taken as the source takes
  it, in doubles: the failing position contributes its creator fees only.
\<close>

theorem harvest_isolates_failure:
  assumes toks: "toks = (if target = ''all''
                         then filter (\<lambda>t. status t = active) tokens
                         else filter (\<lambda>t. mint t = target \<and> status t = active) tokens)"
      and i: "i < length toks"
      and pool: "lpAddress (toks ! i) = Some a" "a \<noteq> []"
      and fails: "collectFees w i a = Inl err"
      and r: "r = harvest w target tokens"
  shows "length (breakdown r) = length toks
       \<and> breakdown r ! i =
           \<lparr> tokenMint = mint (toks ! i), b_symbol = symbol (toks ! i), lpFees = 0,
             creatorFees = (if token_method (toks ! i) = pumpfun
                            then checkPumpFunCreatorFees w i (mint (toks ! i)) else 0) \<rparr>
       \<and> (\<forall>j<length toks. j \<noteq> i \<longrightarrow>
             breakdown r ! j =
               \<lparr> tokenMint = mint (toks ! j), b_symbol = symbol (toks ! j),
                 lpFees = (case lpAddress (toks ! j) of
                             None \<Rightarrow> 0
                           | Some b \<Rightarrow>
                               if b = [] then 0
                               else (case collectFees w j b of
                                       Inl _ \<Rightarrow> 0
                                     | Inr fr \<Rightarrow> solFees fr)),
                 creatorFees = (if token_method (toks ! j) = pumpfun
                                then checkPumpFunCreatorFees w j (mint (toks ! j)) else 0) \<rparr>)
       \<and> totalHarvested r =
           foldl (\<lambda>total e. js_add total (js_add (lpFees e) (creatorFees e))) 0 (breakdown r)"
proof -
  have scope: "harvest_scope target tokens = toks"
    by (simp add: harvest_scope_def toks)
  have len: "length (breakdown r) = length toks"
    unfolding r by (simp add: harvest_breakdown_length scope)
  have nth: "breakdown r ! j = harvest_entry w j (toks ! j)" if "j < length toks" for j
    using that harvest_breakdown_nth [of j target tokens w] by (simp add: r scope)
  have at_i: "breakdown r ! i =
           \<lparr> tokenMint = mint (toks ! i), b_symbol = symbol (toks ! i), lpFees = 0,
             creatorFees = (if token_method (toks ! i) = pumpfun
                            then checkPumpFunCreatorFees w i (mint (toks ! i)) else 0) \<rparr>"
    using pool fails by (simp add: nth [OF i] harvest_entry_explicit)
  have others: "\<forall>j<length toks. j \<noteq> i \<longrightarrow>
             breakdown r ! j =
               \<lparr> tokenMint = mint (toks ! j), b_symbol = symbol (toks ! j),
                 lpFees = (case lpAddress (toks ! j) of
                             None \<Rightarrow> 0
                           | Some b \<Rightarrow>
                               if b = [] then 0
                               else (case collectFees w j b of
                                       Inl _ \<Rightarrow> 0
                                     | Inr fr \<Rightarrow> solFees fr)),
                 creatorFees = (if token_method (toks ! j) = pumpfun
                                then checkPumpFunCreatorFees w j (mint (toks ! j)) else 0) \<rparr>"
    by (simp add: nth harvest_entry_explicit)
  have total: "totalHarvested r =
           foldl (\<lambda>total e. js_add total (js_add (lpFees e) (creatorFees e))) 0 (breakdown r)"
    unfolding r by (rule harvest_total)
  from len at_i others total show ?thesis by blast
qed

text \<open>
  Two positions with pools; the first pool cannot be found, the second yields \<^verbatim>\<open>0.2\<close> SOL;
  the first position is a pump.fun launch with creator fees of \<^verbatim>\<open>0.05\<close> SOL. The total is
  the double 0.25.
\<close>

theorem harvest_isolates_failure_witness:
  "breakdown (harvest pool_down_world ''all'' two_pool_tokens) =
     [\<lparr> tokenMint = ''MintPump'', b_symbol = ''MintPump'', lpFees = 0,
        creatorFees = 3602879701896397 / 72057594037927936 \<rparr>,
      \<lparr> tokenMint = ''MintDirect'', b_symbol = ''MintDirect'',
        lpFees = 3602879701896397 / 18014398509481984, creatorFees = 0 \<rparr>]
   \<and> totalHarvested (harvest pool_down_world ''all'' two_pool_tokens) = 1 / 4"
proof -
  let ?r = "harvest pool_down_world ''all'' two_pool_tokens"
  let ?e0 = "\<lparr> tokenMint = ''MintPump'', b_symbol = ''MintPump'', lpFees = 0,
        creatorFees = 3602879701896397 / 72057594037927936 :: real \<rparr>"
  let ?e1 = "\<lparr> tokenMint = ''MintDirect'', b_symbol = ''MintDirect'',
        lpFees = 3602879701896397 / 18014398509481984 :: real, creatorFees = 0 \<rparr>"
  have toks: "two_pool_tokens = (if ''all'' = ''all''
                         then filter (\<lambda>t. status t = active) two_pool_tokens
                         else filter (\<lambda>t. mint t = ''all'' \<and> status t = active) two_pool_tokens)"
    by (simp add: two_pool_tokens_def sample_token_def)
  have i: "0 < length two_pool_tokens"
    by (simp add: two_pool_tokens_def)
  have pool: "lpAddress (two_pool_tokens ! 0) = Some ''PoolA''" "''PoolA'' \<noteq> []"
    by (simp_all add: two_pool_tokens_def sample_token_def)
  have fails: "collectFees pool_down_world 0 ''PoolA'' = Inl [Txt ''pool account not found'']"
    by (simp add: pool_down_world_def)
  note inst = harvest_isolates_failure [OF toks i pool fails refl]
  from inst have len: "length (breakdown ?r) = 2"
    by (simp add: two_pool_tokens_def)
  from inst have "breakdown ?r ! 0 =
      \<lparr> tokenMint = mint (two_pool_tokens ! 0), b_symbol = symbol (two_pool_tokens ! 0), lpFees = 0,
        creatorFees = (if token_method (two_pool_tokens ! 0) = pumpfun
                       then checkPumpFunCreatorFees pool_down_world 0 (mint (two_pool_tokens ! 0))
                       else 0) \<rparr>"
    by blast
  then have first: "breakdown ?r ! 0 = ?e0"
    by (simp add: two_pool_tokens_def sample_token_def pool_down_world_def calm_world_def)
  from inst have "1 < length two_pool_tokens \<longrightarrow> (1 :: nat) \<noteq> 0 \<longrightarrow>
      breakdown ?r ! 1 =
        \<lparr> tokenMint = mint (two_pool_tokens ! 1), b_symbol = symbol (two_pool_tokens ! 1),
          lpFees = (case lpAddress (two_pool_tokens ! 1) of
                      None \<Rightarrow> 0
                    | Some b \<Rightarrow>
                        if b = [] then 0
                        else (case collectFees pool_down_world 1 b of
                                Inl _ \<Rightarrow> 0
                              | Inr fr \<Rightarrow> solFees fr)),
          creatorFees = (if token_method (two_pool_tokens ! 1) = pumpfun
                         then checkPumpFunCreatorFees pool_down_world 1 (mint (two_pool_tokens ! 1))
                         else 0) \<rparr>"
    by blast
  then have second: "breakdown ?r ! 1 = ?e1"
    by (simp add: two_pool_tokens_def sample_token_def pool_down_world_def)
  have entries: "breakdown ?r = [?e0, ?e1]"
  proof (rule nth_equalityI)
    show "length (breakdown ?r) = length [?e0, ?e1]"
      by (simp add: len)
  next
    fix j
    assume "j < length (breakdown ?r)"
    with len have "j = 0 \<or> j = 1" by auto
    with first second show "breakdown ?r ! j = [?e0, ?e1] ! j"
      by auto
  qed
  from inst have "totalHarvested ?r =
      foldl (\<lambda>total e. js_add total (js_add (lpFees e) (creatorFees e))) 0 (breakdown ?r)"
    by blast
  then have total: "totalHarvested ?r = 1 / 4"
    unfolding entries by (simp add: js_add_def)
  from entries total show ?thesis by simp
qed

subsection \<open>Harvest and the registry\<close>

lemma harvest_fees_registry:
  "deployedTokens (snd (harvest_fees config w tokenMint_param s)) = deployedTokens s
   \<and> lastDeployTimestamp (snd (harvest_fees config w tokenMint_param s)) = lastDeployTimestamp s
   \<and> totalInvested (snd (harvest_fees config w tokenMint_param s)) = totalInvested s"
  by (simp add: harvest_fees_state)

text \<open>
  Claim C8 says that a harvest increases the \<^verbatim>\<open>totalFeesEarned\<close> of each position in scope
  by what was harvested for it. The registry declares that field, the deployment tools
  initialise it to 0, and the portfolio monitor and the strategy review read it; but
  \<^verbatim>\<open>harvest_fees\<close> writes \<^verbatim>\<open>totalEarned\<close> only (the lemma above). For one registered pump.fun
  position creator fees of \<^verbatim>\<open>0.05\<close> SOL are harvested and added to \<^verbatim>\<open>totalEarned\<close>, and the
  position's \<^verbatim>\<open>totalFeesEarned\<close> is 0 before and 0 after.
\<close>

theorem harvest_fees_skips_position_fees:
  "harvest_fees default_config calm_world None earning_state =
     (Inr (Success \<lparr> totalHarvested = 3602879701896397 / 72057594037927936,
                    breakdown = [\<lparr> tokenMint = ''MintPump'', b_symbol = ''MintPump'',
                                   lpFees = 0,
                                   creatorFees = 3602879701896397 / 72057594037927936 \<rparr>],
                    txSignatures = [] \<rparr>),
      earning_state\<lparr> totalEarned := Some (3602879701896397 / 72057594037927936) \<rparr>)
   \<and> map totalFeesEarned (or_list (deployedTokens earning_state) []) = [0]
   \<and> map totalFeesEarned
        (or_list (deployedTokens (snd (harvest_fees default_config calm_world None earning_state))) [])
       = [0]"
proof -
  let ?fee = "3602879701896397 / 72057594037927936 :: real"
  have registry: "or_list (deployedTokens earning_state) [] =
      [sample_token ''MintPump'' pumpfun None 1699990000000 active]"
    by (simp add: earning_state_def fresh_state_def or_list_def)
  have found: "checkPumpFunCreatorFees calm_world 0 ''MintPump'' = ?fee"
    by (simp add: calm_world_def)
  have scope: "(if truthy_str None then the None else ''all'') = ''all''"
    by (simp add: truthy_str_def)
  have h: "harvest calm_world ''all'' (or_list (deployedTokens earning_state) []) =
      \<lparr> totalHarvested = ?fee,
        breakdown = [\<lparr> tokenMint = ''MintPump'', b_symbol = ''MintPump'',
                       lpFees = 0, creatorFees = ?fee \<rparr>],
        txSignatures = [] \<rparr>"
    unfolding registry by (simp add: harvest_earning_registry found js_add_def)
  have paid: "sendSol calm_world a b = Inr ''sigPayout''" for a b
    by (simp add: calm_world_def)
  have before: "js_add (or_num (totalEarned earning_state) 0) ?fee = ?fee"
    by (simp add: or_num_def earning_state_def fresh_state_def js_add_def)
  have a: "harvest_fees default_config calm_world None earning_state =
     (Inr (Success \<lparr> totalHarvested = ?fee,
                    breakdown = [\<lparr> tokenMint = ''MintPump'', b_symbol = ''MintPump'',
                                   lpFees = 0, creatorFees = ?fee \<rparr>],
                    txSignatures = [] \<rparr>),
      earning_state\<lparr> totalEarned := Some ?fee \<rparr>)"
    unfolding harvest_fees_def scope h Let_def
    by (simp add: paid before)
  have b: "map totalFeesEarned (or_list (deployedTokens earning_state) []) = [0]"
    by (simp add: registry sample_token_def)
  have c: "map totalFeesEarned
        (or_list (deployedTokens (snd (harvest_fees default_config calm_world None earning_state))) [])
       = [0]"
    by (simp add: harvest_fees_registry b)
  from a b c show ?thesis by blast
qed

subsection \<open>The portfolio monitor\<close>

lemma portfolio_loop_performances:
  "fst (portfolio_loop w k toks acc)
   = fst acc @ map (\<lambda>(j, t). getTokenPerformance w j t) (zip [k..<k + length toks] toks)"
proof (induction toks arbitrary: k acc)
  case Nil
  show ?case by simp
next
  case (Cons t ts)
  obtain ps v f where acc: "acc = (ps, v, f)"
    by (cases acc) auto
  have "[k..<k + length (t # ts)] = k # [Suc k..<Suc k + length ts]"
    by (subst upt_rec) simp
  then show ?case
    by (simp add: acc Cons.IH Let_def)
qed

lemma getFullPortfolio_tokens:
  "ps_tokens (getFullPortfolio w tokens)
   = map (\<lambda>(j, t). getTokenPerformance w j t) (zip [0..<length tokens] tokens)"
  using portfolio_loop_performances [of w 0 tokens "([], 0, 0)"]
  by (cases "portfolio_loop w 0 tokens ([], 0, 0)") (simp add: getFullPortfolio_def)

lemma getTokenPerformance_fields:
  "volume24h (getTokenPerformance w k t) = 0
   \<and> perf_mint (getTokenPerformance w k t) = mint t
   \<and> perf_deployedAt (getTokenPerformance w k t) = deployedAt t"
  by (simp add: getTokenPerformance_def Let_def)

lemma getFullPortfolio_volume:
  "\<forall>p \<in> set (ps_tokens (getFullPortfolio w tokens)). volume24h p = 0"
  by (auto simp: getFullPortfolio_tokens getTokenPerformance_fields dest!: set_zip_rightD)

subsection \<open>findIndex\<close>

lemma findIndex_Some:
  "findIndex P xs = Some i \<Longrightarrow> i < length xs \<and> P (xs ! i)"
proof (induction xs arbitrary: i)
  case Nil
  then show ?case by simp
next
  case (Cons x xs)
  then show ?case
    by (cases "P x") (auto simp: nth_Cons')
qed

lemma findIndex_cong_map:
  "map f xs = map f ys \<Longrightarrow> findIndex (\<lambda>x. f x = m) xs = findIndex (\<lambda>x. f x = m) ys"
proof (induction xs arbitrary: ys)
  case Nil
  then show ?case by simp
next
  case (Cons x xs)
  then obtain y ys' where ys: "ys = y # ys'" "f x = f y" "map f xs = map f ys'"
    by (cases ys) auto
  with Cons.IH [of ys'] show ?case by simp
qed

lemma findIndex_distinct:
  "distinct (map f xs) \<Longrightarrow> i < length xs \<Longrightarrow> findIndex (\<lambda>x. f x = f (xs ! i)) xs = Some i"
proof (induction xs arbitrary: i)
  case Nil
  then show ?case by simp
next
  case (Cons x xs)
  show ?case
  proof (cases i)
    case 0
    then show ?thesis by simp
  next
    case (Suc j)
    with Cons.prems have j: "j < length xs" and d: "distinct (map f xs)"
      and new: "f x \<notin> f ` set xs"
      by auto
    from j new have "f x \<noteq> f (xs ! j)"
      by (metis imageI nth_mem)
    with Cons.IH [OF d j] Suc show ?thesis by simp
  qed
qed

subsection \<open>The marking loop\<close>

lemma mints_after_marking:
  "map mint (tokens[idx := (tokens ! idx)\<lparr> status := dead \<rparr>]) = map mint tokens"
proof (rule nth_equalityI)
  show "length (map mint (tokens[idx := (tokens ! idx)\<lparr> status := dead \<rparr>])) = length (map mint tokens)"
    by simp
next
  fix i
  assume "i < length (map mint (tokens[idx := (tokens ! idx)\<lparr> status := dead \<rparr>]))"
  then have "i < length tokens" by simp
  then show "map mint (tokens[idx := (tokens ! idx)\<lparr> status := dead \<rparr>]) ! i = map mint tokens ! i"
    by (cases "i = idx") simp_all
qed

lemma mark_dead_length: "length (mark_dead w k perfs tokens) = length tokens"
  by (induction perfs arbitrary: k tokens) (simp_all split: option.splits)

lemma mark_dead_mints: "map mint (mark_dead w k perfs tokens) = map mint tokens"
proof (induction perfs arbitrary: k tokens)
  case Nil
  show ?case by simp
next
  case (Cons p ps)
  show ?case
    by (simp add: Cons.IH mints_after_marking split: option.splits)
qed

lemma mark_dead_keeps_dead:
  "i < length tokens \<Longrightarrow> status (tokens ! i) = dead \<Longrightarrow> status (mark_dead w k perfs tokens ! i) = dead"
proof (induction perfs arbitrary: k tokens)
  case Nil
  then show ?case by simp
next
  case (Cons p ps)
  have upd: "status (tokens[idx := (tokens ! idx)\<lparr> status := dead \<rparr>] ! i) = dead" for idx
    using Cons.prems by (cases "i = idx") simp_all
  show ?case
    using Cons.prems by (auto simp: Cons.IH upd split: option.splits)
qed

lemma mark_dead_marks:
  assumes "\<forall>p \<in> set perfs. volume24h p = 0"
      and "j < length perfs"
      and "clock w (k + j) - perf_deployedAt (perfs ! j) > 86400000"
      and "findIndex (\<lambda>t. mint t = perf_mint (perfs ! j)) tokens = Some idx"
  shows "status (mark_dead w k perfs tokens ! idx) = dead"
  using assms
proof (induction perfs arbitrary: k tokens j)
  case Nil
  then show ?case by simp
next
  case (Cons p ps)
  let ?next = "if clock w k - perf_deployedAt p > 86400000
        then (case findIndex (\<lambda>t. mint t = perf_mint p) tokens of
                None \<Rightarrow> tokens
              | Some idx \<Rightarrow> tokens[idx := (tokens ! idx)\<lparr> status := dead \<rparr>])
        else tokens"
  from Cons.prems(1) have vol: "volume24h p = 0" and vols: "\<forall>p \<in> set ps. volume24h p = 0"
    by simp_all
  from vol have step: "mark_dead w k (p # ps) tokens = mark_dead w (Suc k) ps ?next"
    by simp
  have mints: "map mint ?next = map mint tokens"
    by (simp add: mints_after_marking split: option.splits)
  show ?case
  proof (cases j)
    case 0
    with Cons.prems have here: "clock w k - perf_deployedAt p > 86400000"
      and idx: "findIndex (\<lambda>t. mint t = perf_mint p) tokens = Some idx"
      by simp_all
    from findIndex_Some [OF idx] have in_range: "idx < length tokens"
      by simp
    from here idx have "?next = tokens[idx := (tokens ! idx)\<lparr> status := dead \<rparr>]"
      by simp
    with in_range have "idx < length ?next" "status (?next ! idx) = dead"
      by simp_all
    then show ?thesis
      unfolding step by (rule mark_dead_keeps_dead)
  next
    case (Suc j')
    with Cons.prems have j': "j' < length ps"
      and old: "clock w (Suc k + j') - perf_deployedAt (ps ! j') > 86400000"
      and idx: "findIndex (\<lambda>t. mint t = perf_mint (ps ! j')) tokens = Some idx"
      by simp_all
    from idx findIndex_cong_map [OF mints]
    have idx': "findIndex (\<lambda>t. mint t = perf_mint (ps ! j')) ?next = Some idx"
      by simp
    show ?thesis
      unfolding step by (rule Cons.IH [OF vols j' old idx'])
  qed
qed

lemma findIndex_first:
  "i < length xs \<Longrightarrow> P (xs ! i) \<Longrightarrow> \<exists>idx\<le>i. findIndex P xs = Some idx"
proof (induction xs arbitrary: i)
  case Nil
  then show ?case by simp
next
  case (Cons x xs)
  show ?case
  proof (cases "P x")
    case True
    then show ?thesis by simp
  next
    case False
    with Cons.prems obtain j where j: "i = Suc j" "j < length xs" "P (xs ! j)"
      by (cases i) auto
    from Cons.IH [OF j(2,3)] obtain idx where "idx \<le> j" "findIndex P xs = Some idx"
      by blast
    with False j(1) show ?thesis by simp
  qed
qed

lemma portfolio_check_registry:
  assumes "deployedTokens s = Some tokens" and "tokens \<noteq> []"
  shows "deployedTokens (portfolio_check w s) =
           Some (mark_dead w (length tokens) (ps_tokens (getFullPortfolio w tokens)) tokens)"
  using assms by (simp add: portfolio_check_def or_list_def Let_def)

lemma getFullPortfolio_nth:
  assumes "i < length tokens"
  shows "ps_tokens (getFullPortfolio w tokens) ! i = getTokenPerformance w i (tokens ! i)"
  using assms by (simp add: getFullPortfolio_tokens)

text \<open>
  Without any assumption on the mints: the position that \<^verbatim>\<open>findIndex\<close> finds for an aged
  position, the first one in the registry that carries its mint, is dead afterwards.
\<close>

lemma portfolio_check_marks_first_with_mint:
  assumes reg: "deployedTokens s = Some tokens"
      and i: "i < length tokens"
      and old: "clock w (length tokens + i) - deployedAt (tokens ! i) > 86400000"
  shows "\<exists>tokens' idx. deployedTokens (portfolio_check w s) = Some tokens'
           \<and> idx \<le> i \<and> mint (tokens ! idx) = mint (tokens ! i) \<and> status (tokens' ! idx) = dead"
proof -
  let ?perfs = "ps_tokens (getFullPortfolio w tokens)"
  let ?tokens' = "mark_dead w (length tokens) ?perfs tokens"
  from i have ne: "tokens \<noteq> []" by auto
  have perf: "?perfs ! i = getTokenPerformance w i (tokens ! i)"
    using i by (rule getFullPortfolio_nth)
  have len: "i < length ?perfs"
    using i by (simp add: getFullPortfolio_tokens)
  from findIndex_first [of i tokens "\<lambda>t. mint t = mint (tokens ! i)"] i
  obtain idx where idx: "idx \<le> i" "findIndex (\<lambda>t. mint t = mint (tokens ! i)) tokens = Some idx"
    by auto
  from findIndex_Some [OF idx(2)] have same: "mint (tokens ! idx) = mint (tokens ! i)"
    by simp
  have "status (?tokens' ! idx) = dead"
  proof (rule mark_dead_marks [OF getFullPortfolio_volume len])
    show "clock w (length tokens + i) - perf_deployedAt (?perfs ! i) > 86400000"
      using old by (simp add: perf getTokenPerformance_fields)
    show "findIndex (\<lambda>t. mint t = perf_mint (?perfs ! i)) tokens = Some idx"
      using idx(2) by (simp add: perf getTokenPerformance_fields)
  qed
  with portfolio_check_registry [OF reg ne] idx(1) same show ?thesis
    by blast
qed

text \<open>
  Claim C10. Every performance entry that the portfolio monitor builds has
  \<^verbatim>\<open>volume24h = 0\<close>, whatever the chain and the price service answer. So one run of the
  \<^verbatim>\<open>portfolio_check\<close> heartbeat on a registry of positions with pairwise different mints
  sets the status of every position to dead whose age, at the clock reading of its turn
  of the loop, exceeds 86400000 ms. Nothing is assumed about the position's status
  before the run (it may be graduated) and the world is arbitrary (no trading activity
  is ever read). The registry keeps its length and the position its mint.
\<close>

theorem portfolio_check_marks_aged_tokens:
  assumes reg: "deployedTokens s = Some tokens"
      and mints: "distinct (map mint tokens)"
      and i: "i < length tokens"
      and old: "clock w (length tokens + i) - deployedAt (tokens ! i) > 86400000"
  shows "(\<forall>p \<in> set (ps_tokens (getFullPortfolio w tokens)). volume24h p = 0)
       \<and> (\<exists>tokens'. deployedTokens (portfolio_check w s) = Some tokens'
             \<and> length tokens' = length tokens
             \<and> mint (tokens' ! i) = mint (tokens ! i)
             \<and> status (tokens' ! i) = dead)"
proof -
  let ?perfs = "ps_tokens (getFullPortfolio w tokens)"
  let ?tokens' = "mark_dead w (length tokens) ?perfs tokens"
  from i have ne: "tokens \<noteq> []" by auto
  have perf: "?perfs ! i = getTokenPerformance w i (tokens ! i)"
    using i by (rule getFullPortfolio_nth)
  have len: "i < length ?perfs"
    using i by (simp add: getFullPortfolio_tokens)
  have "status (?tokens' ! i) = dead"
  proof (rule mark_dead_marks [OF getFullPortfolio_volume len])
    show "clock w (length tokens + i) - perf_deployedAt (?perfs ! i) > 86400000"
      using old by (simp add: perf getTokenPerformance_fields)
    show "findIndex (\<lambda>t. mint t = perf_mint (?perfs ! i)) tokens = Some i"
      using findIndex_distinct [OF mints i] by (simp add: perf getTokenPerformance_fields)
  qed
  moreover have "length ?tokens' = length tokens"
    by (rule mark_dead_length)
  moreover have "mint (?tokens' ! i) = mint (tokens ! i)"
  proof -
    have "map mint ?tokens' ! i = map mint tokens ! i"
      by (simp only: mark_dead_mints)
    with i show ?thesis by (simp add: mark_dead_length)
  qed
  ultimately show ?thesis
    using portfolio_check_registry [OF reg ne] getFullPortfolio_volume [of w tokens]
    by blast
qed

text \<open>
  A graduated position deployed 25 hours ago is dead after one run, in a world where the
  chain reports 20 holders for it.
\<close>

theorem portfolio_check_marks_aged_tokens_witness:
  "status (aged_tokens ! 0) = graduated
   \<and> (\<exists>tokens'. deployedTokens (portfolio_check calm_world aged_state) = Some tokens'
         \<and> length tokens' = 2
         \<and> mint (tokens' ! 0) = ''MintOld''
         \<and> status (tokens' ! 0) = dead)"
proof -
  have reg: "deployedTokens aged_state = Some aged_tokens"
    by (simp add: aged_state_def fresh_state_def)
  have mints: "distinct (map mint aged_tokens)"
    by (simp add: aged_tokens_def sample_token_def)
  have i: "0 < length aged_tokens"
    by (simp add: aged_tokens_def)
  have old: "clock calm_world (length aged_tokens + 0) - deployedAt (aged_tokens ! 0) > 86400000"
    by (simp add: aged_tokens_def sample_token_def calm_world_def)
  have before: "status (aged_tokens ! 0) = graduated" "mint (aged_tokens ! 0) = ''MintOld''"
    "length aged_tokens = 2"
    by (simp_all add: aged_tokens_def sample_token_def)
  from portfolio_check_marks_aged_tokens [OF reg mints i old] before
  show ?thesis by simp
qed

end
